theory Spec2Isabelle
  imports Main "HOL-Library.Word"
begin

section \<open>The HTTP output client of beats-output-http\<close>

text \<open>
  A shallow embedding of \<^verbatim>\<open>client.go\<close>: the connection with its \<^verbatim>\<open>connected\<close> flag, the
  request path (\<^verbatim>\<open>request\<close>, \<^verbatim>\<open>execRequest\<close>, \<^verbatim>\<open>execHTTPRequest\<close>), the single-event
  classification of \<^verbatim>\<open>PublishEvent\<close> and the batch loop of \<^verbatim>\<open>PublishEvents\<close>.

  Mutation of the receiver and of the process-wide \<^verbatim>\<open>expvar\<close> counters is explicit state
  passing: every operation takes the client and the world and returns them updated next to
  its Go result. A Go \<^verbatim>\<open>error\<close> is an \<open>error option\<close> (\<open>None\<close> is \<^verbatim>\<open>nil\<close>), a possibly
  \<^verbatim>\<open>nil\<close> slice is a \<open>list option\<close>. Logging (\<^verbatim>\<open>logp\<close>, \<^verbatim>\<open>debugf\<close>) and the clock have no
  effect on any value the code returns or stores and are left out.
\<close>

subsection \<open>Data\<close>

type_synonym bytes = "8 word list"

text \<open>
  Go compares errors by identity. \<^verbatim>\<open>ErrNotConnected\<close> and \<^verbatim>\<open>ErrJSONEncodeFailed\<close> are the two
  package-level sentinels; the other constructors stand for the freshly allocated errors
  the code passes on: the one of \<^verbatim>\<open>http.NewRequest\<close>, the one of \<^verbatim>\<open>conn.http.Do\<close>, the
  \<^verbatim>\<open>fmt.Errorf("%v", resp.Status)\<close> of a status of 300 or more, and the one of
  \<^verbatim>\<open>ioutil.ReadAll\<close>. None of them can be identical to a sentinel.
\<close>

datatype error =
    ErrNotConnected
  | ErrJSONEncodeFailed
  | NewRequestError string
  | TransportError string
  | HTTPStatusError string
  | ReadError string

text \<open>
  An outgoing \<^verbatim>\<open>http.Request\<close>. The \<^verbatim>\<open>Authorization\<close> header written by \<^verbatim>\<open>SetBasicAuth\<close>
  is kept apart from the other headers, as the pair of user name and password it encodes.
\<close>

record http_Request =
  Method :: string
  Url :: string
  Header :: "(string \<times> string) list"
  ReqBody :: "bytes option"
  BasicAuth :: "(string \<times> string) option"

text \<open>
  An \<^verbatim>\<open>http.Response\<close>. \<open>Body\<close> is what \<^verbatim>\<open>ioutil.ReadAll(resp.Body)\<close> yields: the bytes of
  the body, or the text of the read error.
\<close>

record http_Response =
  StatusCode :: int
  Status :: string
  Body :: "string + bytes"

text \<open>The two outcomes of \<^verbatim>\<open>conn.http.Do(req)\<close>: an error, or a response.\<close>

datatype do_result = DoError string | DoResponse http_Response

text \<open>
  The \<^verbatim>\<open>bodyEncoder\<close> interface is declared outside \<^verbatim>\<open>client.go\<close>, so it is a parameter:
  \<open>Marshal\<close> yields the text of the encoding error or the encoded buffer (which \<^verbatim>\<open>Reader()\<close>
  then hands out), \<open>AddHeader\<close> updates a header collection.
\<close>

record 'e bodyEncoder =
  Marshal :: "'e \<Rightarrow> string + bytes"
  AddHeader :: "(string \<times> string) list \<Rightarrow> (string \<times> string) list"

text \<open>
  \<^verbatim>\<open>Connection\<close> and \<^verbatim>\<open>Client\<close>, which embeds it. The field \<open>http\<close> is the \<^verbatim>\<open>Do\<close> method of the
  \<^verbatim>\<open>*http.Client\<close>: the network is outside the program, so the outcome of a round trip is
  any function of the requests handed to the transport before and of the request itself.
\<close>

record 'e Connection =
  URL :: string
  Username :: string
  Password :: string
  http :: "http_Request list \<Rightarrow> http_Request \<Rightarrow> do_result"
  connected :: bool
  encoder :: "'e bodyEncoder"

record 'e Client = "'e Connection" +
  params :: "string \<rightharpoonup> string"
  compressionLevel :: int
  proxyURL :: "string option"

text \<open>
  \<^verbatim>\<open>outputs.Data\<close> of libbeat; the client reads its \<^verbatim>\<open>Event\<close> field only. The field has a
  map type there, so the \<^verbatim>\<open>interface{}\<close> that \<^verbatim>\<open>PublishEvent\<close> passes to \<^verbatim>\<open>request\<close> is never
  the \<^verbatim>\<open>nil\<close> interface.
\<close>

record 'e Data =
  Event :: 'e

text \<open>
  What lives outside the client: the three \<^verbatim>\<open>expvar.Int\<close> counters the client updates itself
  (64-bit, \<^verbatim>\<open>Add\<close> wraps around), and \<open>wire\<close>, the requests handed to \<^verbatim>\<open>conn.http.Do\<close> so far,
  oldest first. The four I/O statistics counters are written by the dialer inside a round
  trip, never by the code modelled here.
\<close>

record world =
  ackedEvents :: "64 word"
  eventsNotAcked :: "64 word"
  publishEventsCallCount :: "64 word"
  wire :: "http_Request list"

text \<open>
  Functions the client calls that are defined outside \<^verbatim>\<open>client.go\<close>, taken as parameters:
  \<^verbatim>\<open>makeURL\<close> of this package (base URL, path, pipeline, parameters) and \<^verbatim>\<open>http.NewRequest\<close>
  of the Go library (method, URL, body), which yields the text of its error or the request.
\<close>

record deps =
  makeURL :: "string \<Rightarrow> string \<Rightarrow> string \<Rightarrow> (string \<rightharpoonup> string) \<Rightarrow> string"
  NewRequest :: "string \<Rightarrow> string \<Rightarrow> bytes option \<Rightarrow> string + http_Request"

subsection \<open>Connection life cycle\<close>

definition Connect :: "('e, 'z) Connection_scheme \<Rightarrow> error option \<times> ('e, 'z) Connection_scheme" where
  "Connect conn = (None, conn\<lparr>connected := True\<rparr>)"

definition IsConnected :: "('e, 'z) Connection_scheme \<Rightarrow> bool" where
  "IsConnected conn = connected conn"

definition Close :: "('e, 'z) Connection_scheme \<Rightarrow> error option \<times> ('e, 'z) Connection_scheme" where
  "Close conn = (None, conn\<lparr>connected := False\<rparr>)"

subsection \<open>The request path\<close>

text \<open>
  The first lines of \<^verbatim>\<open>execHTTPRequest\<close>: the \<^verbatim>\<open>Accept\<close> header is added, and the credentials
  when one of them is not empty. After them comes the round trip; the request is appended to
  the wire whatever its outcome. The deferred \<^verbatim>\<open>closing(resp.Body)\<close> only logs and is left out.
\<close>

definition prepare :: "('e, 'z) Connection_scheme \<Rightarrow> http_Request \<Rightarrow> http_Request" where
  "prepare conn req =
     (let req1 = req\<lparr>Header := Header req @ [(''Accept'', ''application/json'')]\<rparr>
      in if Username conn \<noteq> [] \<or> Password conn \<noteq> []
         then req1\<lparr>BasicAuth := Some (Username conn, Password conn)\<rparr>
         else req1)"

type_synonym reply = "int \<times> bytes option \<times> error option"

definition execHTTPRequest ::
  "('e, 'z) Connection_scheme \<Rightarrow> world \<Rightarrow> http_Request
     \<Rightarrow> reply \<times> ('e, 'z) Connection_scheme \<times> world" where
  "execHTTPRequest conn w req =
     (let req' = prepare conn req;
          w' = w\<lparr>wire := wire w @ [req']\<rparr>
      in case http conn (wire w) req' of
           DoError err \<Rightarrow> ((0, None, Some (TransportError err)), conn\<lparr>connected := False\<rparr>, w')
         | DoResponse resp \<Rightarrow>
             (let status = StatusCode resp
              in if status \<ge> 300
                 then ((status, None, Some (HTTPStatusError (Status resp))),
                       conn\<lparr>connected := False\<rparr>, w')
                 else (case Body resp of
                         Inl err \<Rightarrow> ((status, None, Some (ReadError err)),
                                     conn\<lparr>connected := False\<rparr>, w')
                       | Inr obj \<Rightarrow> ((status, Some obj, None), conn, w'))))"

definition execRequest ::
  "deps \<Rightarrow> ('e, 'z) Connection_scheme \<Rightarrow> world \<Rightarrow> string \<Rightarrow> string \<Rightarrow> bytes option
     \<Rightarrow> reply \<times> ('e, 'z) Connection_scheme \<times> world" where
  "execRequest d conn w method url body =
     (case NewRequest d method url body of
        Inl err \<Rightarrow> ((0, None, Some (NewRequestError err)), conn, w)
      | Inr req \<Rightarrow>
          execHTTPRequest conn w
            (if body \<noteq> None then req\<lparr>Header := AddHeader (encoder conn) (Header req)\<rparr> else req))"

text \<open>The body is an \<^verbatim>\<open>interface{}\<close>: \<open>None\<close> is the \<^verbatim>\<open>nil\<close> interface.\<close>

definition request ::
  "deps \<Rightarrow> ('e, 'z) Connection_scheme \<Rightarrow> world \<Rightarrow> string \<Rightarrow> string \<Rightarrow> (string \<rightharpoonup> string)
     \<Rightarrow> 'e option \<Rightarrow> reply \<times> ('e, 'z) Connection_scheme \<times> world" where
  "request d conn w method path ps body =
     (let url = makeURL d (URL conn) path [] ps
      in case body of
           None \<Rightarrow> execRequest d conn w method url None
         | Some b \<Rightarrow>
             (case Marshal (encoder conn) b of
                Inl err \<Rightarrow> ((0, None, Some ErrJSONEncodeFailed), conn, w)
              | Inr buf \<Rightarrow> execRequest d conn w method url (Some buf)))"

subsection \<open>Publishing\<close>

definition PublishEvent ::
  "deps \<Rightarrow> ('e, 'z) Client_scheme \<Rightarrow> world \<Rightarrow> 'e Data
     \<Rightarrow> error option \<times> ('e, 'z) Client_scheme \<times> world" where
  "PublishEvent d client w data =
     (if \<not> connected client then (Some ErrNotConnected, client, w)
      else
        (let event = Event data
         in case request d client w ''POST'' [] (params client) (Some event) of
              ((status, _, err), client', w') \<Rightarrow>
                if err \<noteq> None \<and> err = Some ErrJSONEncodeFailed then (None, client', w')
                else if status = 0 then (None, client', w')
                else if status \<ge> 500 \<or> status = 429 then (err, client', w')
                else if status \<ge> 300 \<and> status < 500 then (None, client', w')
                else (None, client', w')))"

text \<open>
  The \<^verbatim>\<open>for\<close> loop of \<^verbatim>\<open>PublishEvents\<close>: it returns from the function at the first event whose
  \<^verbatim>\<open>PublishEvent\<close> yields an error, and falls through (\<open>None\<close>) when the range is used up.
\<close>

fun publishLoop ::
  "deps \<Rightarrow> ('e, 'z) Client_scheme \<Rightarrow> world \<Rightarrow> 'e Data list
     \<Rightarrow> error option \<times> ('e, 'z) Client_scheme \<times> world" where
  "publishLoop d client w [] = (None, client, w)"
| "publishLoop d client w (event # rest) =
     (case PublishEvent d client w event of
        (Some sendErr, client', w') \<Rightarrow> (Some sendErr, client', w')
      | (None, client', w') \<Rightarrow> publishLoop d client' w' rest)"

text \<open>
  \<^verbatim>\<open>failedEvents\<close> is declared and never appended to, so it is the \<^verbatim>\<open>nil\<close> slice where the
  counters are updated, and \<^verbatim>\<open>sendErr\<close> is \<^verbatim>\<open>nil\<close> whenever the loop has run to its end. A
  \<^verbatim>\<open>nil\<close> and an empty input slice both have length 0 and are the empty list.
\<close>

definition PublishEvents ::
  "deps \<Rightarrow> ('e, 'z) Client_scheme \<Rightarrow> world \<Rightarrow> 'e Data list
     \<Rightarrow> ('e Data list option \<times> error option) \<times> ('e, 'z) Client_scheme \<times> world" where
  "PublishEvents d client w data =
     (let w1 = w\<lparr>publishEventsCallCount := publishEventsCallCount w + 1\<rparr>
      in if length data = 0 then ((None, None), client, w1)
         else if \<not> connected client then ((Some data, Some ErrNotConnected), client, w1)
         else
           (case publishLoop d client w1 data of
              (Some sendErr, client', w') \<Rightarrow> ((None, Some sendErr), client', w')
            | (None, client', w') \<Rightarrow>
                (let failedEvents = ([] :: 'e Data list);
                     w2 = w'\<lparr>ackedEvents := ackedEvents w'
                              + word_of_int (int (length data) - int (length failedEvents))\<rparr>;
                     w3 = w2\<lparr>eventsNotAcked := eventsNotAcked w2
                              + word_of_int (int (length failedEvents))\<rparr>
                 in if length failedEvents > 0 then ((Some failedEvents, None), client', w3)
                    else ((None, None), client', w3))))"

subsection \<open>Notions used to state the properties\<close>

text \<open>
  The request that \<^verbatim>\<open>PublishEvent\<close> hands to the transport for an event, read off the path
  \<^verbatim>\<open>request\<close>, \<^verbatim>\<open>execRequest\<close>, \<^verbatim>\<open>execHTTPRequest\<close>; \<open>None\<close> when the event does not encode or
  \<^verbatim>\<open>http.NewRequest\<close> fails, so that no round trip takes place.
\<close>

definition outgoing :: "deps \<Rightarrow> ('e, 'z) Client_scheme \<Rightarrow> 'e Data \<Rightarrow> http_Request option" where
  "outgoing d client data =
     (case Marshal (encoder client) (Event data) of
        Inl err \<Rightarrow> None
      | Inr buf \<Rightarrow>
          (case NewRequest d ''POST'' (makeURL d (URL client) [] [] (params client)) (Some buf) of
             Inl err \<Rightarrow> None
           | Inr req \<Rightarrow>
               Some (prepare client (req\<lparr>Header := AddHeader (encoder client) (Header req)\<rparr>))))"

text \<open>
  Publishing one at a time, in input order: one \<^verbatim>\<open>PublishEvent\<close> call for each event of the
  list, from first to last, each on the client and world the call before it left, with the
  list of their results. Unlike the loop it never stops early.
\<close>

fun publishAll ::
  "deps \<Rightarrow> ('e, 'z) Client_scheme \<Rightarrow> world \<Rightarrow> 'e Data list
     \<Rightarrow> error option list \<times> ('e, 'z) Client_scheme \<times> world" where
  "publishAll d client w [] = ([], client, w)"
| "publishAll d client w (event # rest) =
     (case PublishEvent d client w event of
        (r, client', w') \<Rightarrow>
          (case publishAll d client' w' rest of
             (rs, client'', w'') \<Rightarrow> (r # rs, client'', w'')))"

subsection \<open>A concrete client\<close>

text \<open>
  A client for events that are strings, with an encoder that rejects the string \<open>NaN\<close> and
  passes the bytes of any other, against a server given as a function. \<open>always\<close> is the
  server with one fixed outcome, \<open>script\<close> the server that plays a list of outcomes in
  turn and then repeats a last one.
\<close>

definition deps0 :: deps where
  "deps0 = \<lparr>makeURL = (\<lambda>url path pipeline ps. url @ path),
            NewRequest = (\<lambda>method url body.
              Inr \<lparr>Method = method, Url = url, Header = [], ReqBody = body, BasicAuth = None\<rparr>)\<rparr>"

definition encoder0 :: "string bodyEncoder" where
  "encoder0 = \<lparr>Marshal = (\<lambda>e. if e = ''NaN'' then Inl ''json: unsupported value''
                             else Inr (map (\<lambda>c. of_nat (of_char c)) e)),
               AddHeader = (\<lambda>h. h @ [(''Content-Type'', ''application/json'')])\<rparr>"

definition client0 :: "(http_Request list \<Rightarrow> http_Request \<Rightarrow> do_result) \<Rightarrow> string Client" where
  "client0 server = \<lparr>URL = ''http://h/in'', Username = [], Password = [], http = server,
                     connected = True, encoder = encoder0, params = Map.empty,
                     compressionLevel = 0, proxyURL = None\<rparr>"

definition world0 :: world where
  "world0 = \<lparr>ackedEvents = 0, eventsNotAcked = 0, publishEventsCallCount = 0, wire = []\<rparr>"

definition req0 :: http_Request where
  "req0 = \<lparr>Method = ''POST'', Url = ''http://h/in'',
           Header = [(''Content-Type'', ''application/json''), (''Accept'', ''application/json'')],
           ReqBody = Some [123, 125], BasicAuth = None\<rparr>"

definition response0 :: "int \<Rightarrow> string \<Rightarrow> string + bytes \<Rightarrow> http_Response" where
  "response0 code text body = \<lparr>StatusCode = code, Status = text, Body = body\<rparr>"

definition always :: "do_result \<Rightarrow> http_Request list \<Rightarrow> http_Request \<Rightarrow> do_result" where
  "always r history req = r"

definition script ::
  "do_result list \<Rightarrow> do_result \<Rightarrow> http_Request list \<Rightarrow> http_Request \<Rightarrow> do_result" where
  "script rs final history req =
     (if length history < length rs then rs ! length history else final)"

definition event0 :: "string Data" where
  "event0 = \<lparr>Event = ''{}''\<rparr>"

definition badEvent :: "string Data" where
  "badEvent = \<lparr>Event = ''NaN''\<rparr>"

definition tlsFails :: "string Client" where
  "tlsFails = client0 (always (DoError ''tls: handshake failure''))"

definition answers :: "int \<Rightarrow> string \<Rightarrow> string + bytes \<Rightarrow> string Client" where
  "answers code text body = client0 (always (DoResponse (response0 code text body)))"

definition okThenUnavailable :: "string Client" where
  "okThenUnavailable =
     client0 (script [DoResponse (response0 200 ''200 OK'' (Inr []))]
                (DoResponse (response0 503 ''503 Service Unavailable'' (Inr []))))"

definition offline :: "string Client" where
  "offline = snd (Close (answers 200 ''200 OK'' (Inr [])))"

section \<open>Properties\<close>

subsection \<open>The request path and the classification, in general\<close>

lemma request_outgoing:
  assumes "outgoing d client data = Some req"
  shows "request d client w ''POST'' [] (params client) (Some (Event data)) =
         (case http client (wire w) req of
            DoError err \<Rightarrow> ((0, None, Some (TransportError err)), client\<lparr>connected := False\<rparr>,
                            w\<lparr>wire := wire w @ [req]\<rparr>)
          | DoResponse resp \<Rightarrow>
              if StatusCode resp \<ge> 300
              then ((StatusCode resp, None, Some (HTTPStatusError (Status resp))),
                    client\<lparr>connected := False\<rparr>, w\<lparr>wire := wire w @ [req]\<rparr>)
              else (case Body resp of
                      Inl err \<Rightarrow> ((StatusCode resp, None, Some (ReadError err)),
                                  client\<lparr>connected := False\<rparr>, w\<lparr>wire := wire w @ [req]\<rparr>)
                    | Inr obj \<Rightarrow> ((StatusCode resp, Some obj, None), client,
                                  w\<lparr>wire := wire w @ [req]\<rparr>)))"
  using assms
  by (auto simp: outgoing_def request_def execRequest_def execHTTPRequest_def Let_def
           split: sum.splits do_result.splits)

lemma request_transport_error:
  assumes "outgoing d client data = Some req" and "http client (wire w) req = DoError e"
  shows "request d client w ''POST'' [] (params client) (Some (Event data)) =
         ((0, None, Some (TransportError e)), client\<lparr>connected := False\<rparr>,
          w\<lparr>wire := wire w @ [req]\<rparr>)"
  by (simp add: request_outgoing [OF assms(1)] assms(2))

lemma request_status_ge_300:
  assumes "outgoing d client data = Some req" and "http client (wire w) req = DoResponse resp"
    and "StatusCode resp \<ge> 300"
  shows "request d client w ''POST'' [] (params client) (Some (Event data)) =
         ((StatusCode resp, None, Some (HTTPStatusError (Status resp))),
          client\<lparr>connected := False\<rparr>, w\<lparr>wire := wire w @ [req]\<rparr>)"
  by (simp add: request_outgoing [OF assms(1)] assms(2,3))

lemma request_status_lt_300:
  assumes "outgoing d client data = Some req" and "http client (wire w) req = DoResponse resp"
    and "StatusCode resp < 300"
  shows "request d client w ''POST'' [] (params client) (Some (Event data)) =
         (case Body resp of
            Inl err \<Rightarrow> ((StatusCode resp, None, Some (ReadError err)),
                        client\<lparr>connected := False\<rparr>, w\<lparr>wire := wire w @ [req]\<rparr>)
          | Inr obj \<Rightarrow> ((StatusCode resp, Some obj, None), client,
                        w\<lparr>wire := wire w @ [req]\<rparr>))"
  using assms(3) by (simp add: request_outgoing [OF assms(1)] assms(2))

lemma PublishEvent_not_connected:
  "\<not> connected client \<Longrightarrow> PublishEvent d client w data = (Some ErrNotConnected, client, w)"
  by (simp add: PublishEvent_def)

lemma PublishEvent_transport_error:
  assumes "connected client" and "outgoing d client data = Some req"
    and "http client (wire w) req = DoError e"
  shows "PublishEvent d client w data =
         (None, client\<lparr>connected := False\<rparr>, w\<lparr>wire := wire w @ [req]\<rparr>)"
  using assms(1) by (simp add: PublishEvent_def request_transport_error [OF assms(2,3)])

lemma PublishEvent_status_ge_300:
  assumes "connected client" and "outgoing d client data = Some req"
    and "http client (wire w) req = DoResponse resp" and "StatusCode resp \<ge> 300"
  shows "PublishEvent d client w data =
         (if StatusCode resp \<ge> 500 \<or> StatusCode resp = 429
          then Some (HTTPStatusError (Status resp)) else None,
          client\<lparr>connected := False\<rparr>, w\<lparr>wire := wire w @ [req]\<rparr>)"
  using assms(1,4) by (simp add: PublishEvent_def request_status_ge_300 [OF assms(2,3,4)])

lemma PublishEvent_status_lt_300:
  assumes "connected client" and "outgoing d client data = Some req"
    and "http client (wire w) req = DoResponse resp" and "StatusCode resp < 300"
  shows "PublishEvent d client w data =
         (case Body resp of
            Inl err \<Rightarrow> (None, client\<lparr>connected := False\<rparr>, w\<lparr>wire := wire w @ [req]\<rparr>)
          | Inr obj \<Rightarrow> (None, client, w\<lparr>wire := wire w @ [req]\<rparr>))"
  using assms(1,4)
  by (simp add: PublishEvent_def request_status_lt_300 [OF assms(2,3,4)] split: sum.splits)

text \<open>
  The loop passes over a prefix of events whose publish attempts all return \<^verbatim>\<open>nil\<close>, and
  goes on with the rest on the state that prefix left.
\<close>

lemma publishLoop_prefix:
  "publishAll d client w pre = (rs, client1, w1) \<Longrightarrow> \<forall>r \<in> set rs. r = None
     \<Longrightarrow> publishLoop d client w (pre @ rest) = publishLoop d client1 w1 rest"
proof (induction pre arbitrary: client w rs)
  case Nil
  then show ?case by simp
next
  case (Cons event pre)
  obtain r c' w' where step: "PublishEvent d client w event = (r, c', w')"
    by (cases "PublishEvent d client w event") auto
  obtain rs' c'' w'' where tl: "publishAll d c' w' pre = (rs', c'', w'')"
    by (cases "publishAll d c' w' pre") auto
  from Cons.prems(1) step tl have eqs: "rs = r # rs'" "client1 = c''" "w1 = w''"
    by simp_all
  with Cons.prems(2) have "r = None" and rest: "\<forall>r \<in> set rs'. r = None"
    by simp_all
  from tl eqs have "publishAll d c' w' pre = (rs', client1, w1)" by simp
  from Cons.IH [OF this rest]
  have "publishLoop d c' w' (pre @ rest) = publishLoop d client1 w1 rest" .
  with step \<open>r = None\<close> show ?case by simp
qed

text \<open>
  When every event of a batch is published with result \<^verbatim>\<open>nil\<close>, the batch returns
  \<^verbatim>\<open>(nil, nil)\<close> and the acked-events counter grows by the size of the batch.
\<close>

lemma PublishEvents_all_published:
  assumes "connected client" and "data \<noteq> []"
    and "publishAll d client (w\<lparr>publishEventsCallCount := publishEventsCallCount w + 1\<rparr>) data
           = (rs, client1, w1)"
    and "\<forall>r \<in> set rs. r = None"
  shows "PublishEvents d client w data =
           ((None, None), client1,
            w1\<lparr>ackedEvents := ackedEvents w1 + of_nat (length data),
               eventsNotAcked := eventsNotAcked w1\<rparr>)"
proof -
  have "publishLoop d client (w\<lparr>publishEventsCallCount := publishEventsCallCount w + 1\<rparr>)
          (data @ []) = publishLoop d client1 w1 []"
    by (rule publishLoop_prefix [OF assms(3,4)])
  then have "publishLoop d client
               (w\<lparr>publishEventsCallCount := publishEventsCallCount w + 1\<rparr>) data
             = (None, client1, w1)"
    by simp
  then show ?thesis
    using assms(1,2) by (simp add: PublishEvents_def)
qed

subsection \<open>Facts about the concrete client\<close>

lemma wire0: "wire world0 = []"
  by (simp add: world0_def)

lemma connected0: "connected (client0 server)"
  by (simp add: client0_def)

lemma http0: "http (client0 server) = server"
  by (simp add: client0_def)

lemma outgoing0: "outgoing deps0 (client0 server) event0 = Some req0"
  by (simp add: outgoing_def deps0_def client0_def encoder0_def req0_def prepare_def event0_def)

lemma Marshal0: "Marshal (encoder (client0 server)) (Event badEvent)
                 = Inl ''json: unsupported value''"
  by (simp add: client0_def encoder0_def badEvent_def)

lemma tlsFails_facts:
  "connected tlsFails" "outgoing deps0 tlsFails event0 = Some req0"
  "http tlsFails history req = DoError ''tls: handshake failure''"
  by (simp_all add: tlsFails_def connected0 outgoing0 http0 always_def)

lemma answers_facts:
  "connected (answers code text body)" "outgoing deps0 (answers code text body) event0 = Some req0"
  "http (answers code text body) history req = DoResponse (response0 code text body)"
  by (simp_all add: answers_def connected0 outgoing0 http0 always_def)

lemma okThenUnavailable_facts:
  "connected okThenUnavailable" "outgoing deps0 okThenUnavailable event0 = Some req0"
  "http okThenUnavailable [] req = DoResponse (response0 200 ''200 OK'' (Inr []))"
  "http okThenUnavailable [r1] req
     = DoResponse (response0 503 ''503 Service Unavailable'' (Inr []))"
  by (simp_all add: okThenUnavailable_def connected0 outgoing0 http0 script_def)

lemma response0_sel:
  "StatusCode (response0 code text body) = code" "Status (response0 code text body) = text"
  "Body (response0 code text body) = body"
  by (simp_all add: response0_def)

lemma offline_not_connected: "\<not> connected offline"
  by (simp add: offline_def Close_def)

subsection \<open>Transport errors\<close>

text \<open>
  C1, as the code has it. When the round trip of a publish attempt fails with a transport
  error, the request path sets the connected flag to false and returns status 0, no body
  and that error. \<^verbatim>\<open>PublishEvent\<close> classifies status 0 as "event was not sent yet" and
  returns \<^verbatim>\<open>nil\<close>: the transport error is not passed to the caller. The failure reaches the
  caller with the next publish attempt on the connection, which is refused with
  \<^verbatim>\<open>ErrNotConnected\<close>.
\<close>

theorem transport_error_disconnects_and_is_absorbed:
  assumes "connected client" and "outgoing d client data = Some req"
    and "http client (wire w) req = DoError e"
  shows "request d client w ''POST'' [] (params client) (Some (Event data)) =
           ((0, None, Some (TransportError e)), client\<lparr>connected := False\<rparr>,
            w\<lparr>wire := wire w @ [req]\<rparr>)
         \<and> PublishEvent d client w data =
           (None, client\<lparr>connected := False\<rparr>, w\<lparr>wire := wire w @ [req]\<rparr>)
         \<and> PublishEvent d (client\<lparr>connected := False\<rparr>) (w\<lparr>wire := wire w @ [req]\<rparr>) data' =
           (Some ErrNotConnected, client\<lparr>connected := False\<rparr>, w\<lparr>wire := wire w @ [req]\<rparr>)"
  by (simp add: request_transport_error [OF assms(2,3)]
        PublishEvent_transport_error [OF assms] PublishEvent_not_connected)

theorem transport_error_disconnects_and_is_absorbed_witness:
  "connected tlsFails
   \<and> outgoing deps0 tlsFails event0 = Some req0
   \<and> http tlsFails (wire world0) req0 = DoError ''tls: handshake failure''
   \<and> request deps0 tlsFails world0 ''POST'' [] (params tlsFails) (Some (Event event0)) =
       ((0, None, Some (TransportError ''tls: handshake failure'')),
        tlsFails\<lparr>connected := False\<rparr>, world0\<lparr>wire := [req0]\<rparr>)
   \<and> PublishEvent deps0 tlsFails world0 event0 =
       (None, tlsFails\<lparr>connected := False\<rparr>, world0\<lparr>wire := [req0]\<rparr>)
   \<and> PublishEvent deps0 (tlsFails\<lparr>connected := False\<rparr>) (world0\<lparr>wire := [req0]\<rparr>) event0 =
       (Some ErrNotConnected, tlsFails\<lparr>connected := False\<rparr>, world0\<lparr>wire := [req0]\<rparr>)"
proof -
  have h1: "connected tlsFails"
    and h2: "outgoing deps0 tlsFails event0 = Some req0"
    and h3: "http tlsFails (wire world0) req0 = DoError ''tls: handshake failure''"
    by (rule tlsFails_facts)+
  from transport_error_disconnects_and_is_absorbed [OF h1 h2 h3, of event0] h1 h2 h3
  show ?thesis by (simp add: wire0)
qed

text \<open>
  A TLS handshake that fails on a connected client: the publish attempt returns \<^verbatim>\<open>nil\<close>, not
  the transport error.
\<close>

theorem transport_error_is_not_returned:
  "connected tlsFails
   \<and> outgoing deps0 tlsFails event0 = Some req0
   \<and> http tlsFails (wire world0) req0 = DoError ''tls: handshake failure''
   \<and> fst (PublishEvent deps0 tlsFails world0 event0) = None
   \<and> fst (PublishEvent deps0 tlsFails world0 event0)
       \<noteq> Some (TransportError ''tls: handshake failure'')"
  by (simp add: tlsFails_facts
        PublishEvent_transport_error [OF tlsFails_facts(1) tlsFails_facts(2) tlsFails_facts(3)])

subsection \<open>Classification by status code\<close>

text \<open>
  C2. A publish attempt whose response has a status of 500 or more, or 429, is retryable:
  \<^verbatim>\<open>PublishEvent\<close> returns an error, the status error made from the response, and the
  connected flag becomes false.
\<close>

theorem server_error_status_is_retryable:
  assumes "connected client" and "outgoing d client data = Some req"
    and "http client (wire w) req = DoResponse resp"
    and "StatusCode resp \<ge> 500 \<or> StatusCode resp = 429"
  shows "PublishEvent d client w data =
           (Some (HTTPStatusError (Status resp)), client\<lparr>connected := False\<rparr>,
            w\<lparr>wire := wire w @ [req]\<rparr>)"
proof -
  from assms(4) have "StatusCode resp \<ge> 300" by auto
  from PublishEvent_status_ge_300 [OF assms(1,2,3) this] assms(4) show ?thesis by auto
qed

theorem server_error_status_is_retryable_witness:
  "connected (answers 503 ''503 Service Unavailable'' (Inr []))
   \<and> outgoing deps0 (answers 503 ''503 Service Unavailable'' (Inr [])) event0 = Some req0
   \<and> http (answers 503 ''503 Service Unavailable'' (Inr [])) (wire world0) req0
       = DoResponse (response0 503 ''503 Service Unavailable'' (Inr []))
   \<and> (StatusCode (response0 503 ''503 Service Unavailable'' (Inr [])) \<ge> 500
      \<or> StatusCode (response0 503 ''503 Service Unavailable'' (Inr [])) = 429)
   \<and> PublishEvent deps0 (answers 503 ''503 Service Unavailable'' (Inr [])) world0 event0 =
       (Some (HTTPStatusError ''503 Service Unavailable''),
        (answers 503 ''503 Service Unavailable'' (Inr []))\<lparr>connected := False\<rparr>,
        world0\<lparr>wire := [req0]\<rparr>)"
proof -
  let ?c = "answers 503 ''503 Service Unavailable'' (Inr [])"
  let ?r = "response0 503 ''503 Service Unavailable'' (Inr [])"
  have h1: "connected ?c" and h2: "outgoing deps0 ?c event0 = Some req0"
    and h3: "http ?c (wire world0) req0 = DoResponse ?r"
    by (rule answers_facts)+
  have h4: "StatusCode ?r \<ge> 500 \<or> StatusCode ?r = 429"
    by (simp add: response0_sel)
  from server_error_status_is_retryable [OF h1 h2 h3 h4] h1 h2 h3 h4
  show ?thesis by (simp add: wire0 response0_sel)
qed

text \<open>
  C3. A publish attempt whose response has a status from 300 to 499 other than 429 is
  terminal: \<^verbatim>\<open>PublishEvent\<close> returns \<^verbatim>\<open>nil\<close>, so the event is dropped and the caller is not
  told to retry.
\<close>

theorem client_error_status_is_terminal:
  assumes "connected client" and "outgoing d client data = Some req"
    and "http client (wire w) req = DoResponse resp"
    and "300 \<le> StatusCode resp" and "StatusCode resp < 500" and "StatusCode resp \<noteq> 429"
  shows "fst (PublishEvent d client w data) = None"
  using assms(5,6) by (simp add: PublishEvent_status_ge_300 [OF assms(1,2,3,4)])

theorem client_error_status_is_terminal_witness:
  "connected (answers 404 ''404 Not Found'' (Inr []))
   \<and> outgoing deps0 (answers 404 ''404 Not Found'' (Inr [])) event0 = Some req0
   \<and> http (answers 404 ''404 Not Found'' (Inr [])) (wire world0) req0
       = DoResponse (response0 404 ''404 Not Found'' (Inr []))
   \<and> 300 \<le> StatusCode (response0 404 ''404 Not Found'' (Inr []))
   \<and> StatusCode (response0 404 ''404 Not Found'' (Inr [])) < 500
   \<and> StatusCode (response0 404 ''404 Not Found'' (Inr [])) \<noteq> 429
   \<and> fst (PublishEvent deps0 (answers 404 ''404 Not Found'' (Inr [])) world0 event0) = None"
proof -
  let ?c = "answers 404 ''404 Not Found'' (Inr [])"
  let ?r = "response0 404 ''404 Not Found'' (Inr [])"
  have h1: "connected ?c" and h2: "outgoing deps0 ?c event0 = Some req0"
    and h3: "http ?c (wire world0) req0 = DoResponse ?r"
    by (rule answers_facts)+
  have h4: "300 \<le> StatusCode ?r" and h5: "StatusCode ?r < 500" and h6: "StatusCode ?r \<noteq> 429"
    by (simp_all add: response0_sel)
  from client_error_status_is_terminal [OF h1 h2 h3 h4 h5 h6] h1 h2 h3 h4 h5 h6
  show ?thesis by simp
qed




text \<open>
  C5, as the code has it. A publish attempt whose response has a status from 300 to 499
  other than 429 resets the connected flag to false, as every status of 300 or more does;
  \<^verbatim>\<open>PublishEvent\<close> returns \<^verbatim>\<open>nil\<close> and the client is otherwise unchanged.
\<close>

theorem client_error_status_disconnects:
  assumes "connected client" and "outgoing d client data = Some req"
    and "http client (wire w) req = DoResponse resp"
    and "300 \<le> StatusCode resp" and "StatusCode resp < 500" and "StatusCode resp \<noteq> 429"
  shows "PublishEvent d client w data =
           (None, client\<lparr>connected := False\<rparr>, w\<lparr>wire := wire w @ [req]\<rparr>)
         \<and> \<not> connected (fst (snd (PublishEvent d client w data)))"
  using assms(5,6) by (simp add: PublishEvent_status_ge_300 [OF assms(1,2,3,4)])

theorem client_error_status_disconnects_witness:
  "connected (answers 400 ''400 Bad Request'' (Inr []))
   \<and> outgoing deps0 (answers 400 ''400 Bad Request'' (Inr [])) event0 = Some req0
   \<and> http (answers 400 ''400 Bad Request'' (Inr [])) (wire world0) req0
       = DoResponse (response0 400 ''400 Bad Request'' (Inr []))
   \<and> 300 \<le> StatusCode (response0 400 ''400 Bad Request'' (Inr []))
   \<and> StatusCode (response0 400 ''400 Bad Request'' (Inr [])) < 500
   \<and> StatusCode (response0 400 ''400 Bad Request'' (Inr [])) \<noteq> 429
   \<and> PublishEvent deps0 (answers 400 ''400 Bad Request'' (Inr [])) world0 event0 =
       (None, (answers 400 ''400 Bad Request'' (Inr []))\<lparr>connected := False\<rparr>,
        world0\<lparr>wire := [req0]\<rparr>)
   \<and> \<not> connected (fst (snd (PublishEvent deps0
         (answers 400 ''400 Bad Request'' (Inr [])) world0 event0)))"
proof -
  let ?c = "answers 400 ''400 Bad Request'' (Inr [])"
  let ?r = "response0 400 ''400 Bad Request'' (Inr [])"
  have h1: "connected ?c" and h2: "outgoing deps0 ?c event0 = Some req0"
    and h3: "http ?c (wire world0) req0 = DoResponse ?r"
    by (rule answers_facts)+
  have h4: "300 \<le> StatusCode ?r" and h5: "StatusCode ?r < 500" and h6: "StatusCode ?r \<noteq> 429"
    by (simp_all add: response0_sel)
  from client_error_status_disconnects [OF h1 h2 h3 h4 h5 h6] h1 h2 h3 h4 h5 h6
  show ?thesis by (simp add: wire0)
qed

text \<open>
  A response with status 404 on a connected client: after the publish attempt the client
  is no longer connected.
\<close>

theorem client_error_status_resets_connected:
  "connected (answers 404 ''404 Not Found'' (Inr []))
   \<and> outgoing deps0 (answers 404 ''404 Not Found'' (Inr [])) event0 = Some req0
   \<and> http (answers 404 ''404 Not Found'' (Inr [])) (wire world0) req0
       = DoResponse (response0 404 ''404 Not Found'' (Inr []))
   \<and> StatusCode (response0 404 ''404 Not Found'' (Inr [])) = 404
   \<and> connected (fst (snd (PublishEvent deps0
         (answers 404 ''404 Not Found'' (Inr [])) world0 event0)))
       \<noteq> connected (answers 404 ''404 Not Found'' (Inr []))"
proof -
  let ?c = "answers 404 ''404 Not Found'' (Inr [])"
  let ?r = "response0 404 ''404 Not Found'' (Inr [])"
  have h1: "connected ?c" and h2: "outgoing deps0 ?c event0 = Some req0"
    and h3: "http ?c (wire world0) req0 = DoResponse ?r"
    by (rule answers_facts)+
  have h4: "300 \<le> StatusCode ?r"
    by (simp add: response0_sel)
  from PublishEvent_status_ge_300 [OF h1 h2 h3 h4] h1 h2 h3
  show ?thesis by (simp add: response0_sel)
qed

subsection \<open>Batches\<close>

text \<open>
  C6, as the code has it. On an empty batch \<^verbatim>\<open>PublishEvents\<close> returns \<^verbatim>\<open>(nil, nil)\<close>, sends no
  request and leaves the client, the acked-events counter and the not-acked counter as they
  were; the publish-events call counter is incremented by one, since the call is counted
  before the length of the batch is looked at.
\<close>

theorem empty_batch_counts_the_call_only:
  "PublishEvents d client w [] =
     ((None, None), client, w\<lparr>publishEventsCallCount := publishEventsCallCount w + 1\<rparr>)"
  by (simp add: PublishEvents_def)

theorem empty_batch_counts_the_call_only_witness:
  "PublishEvents deps0 (answers 200 ''200 OK'' (Inr [])) world0 [] =
     ((None, None), answers 200 ''200 OK'' (Inr []),
      \<lparr>ackedEvents = 0, eventsNotAcked = 0, publishEventsCallCount = 1, wire = []\<rparr>)"
  using empty_batch_counts_the_call_only [of deps0 "answers 200 ''200 OK'' (Inr [])" world0]
  by (simp add: world0_def)

text \<open>
  An empty batch on a fresh world: the publish-events call counter does not keep its value.
\<close>

theorem empty_batch_changes_call_counter:
  "publishEventsCallCount (snd (snd (PublishEvents deps0 (answers 200 ''200 OK'' (Inr [])) world0 [])))
     \<noteq> publishEventsCallCount world0"
  by (simp add: PublishEvents_def world0_def)

text \<open>
  C7. While the connected flag is false, \<^verbatim>\<open>PublishEvents\<close> on a batch that is not empty
  returns the whole input batch, unchanged, with \<^verbatim>\<open>ErrNotConnected\<close>, and \<^verbatim>\<open>PublishEvent\<close> on
  any event returns \<^verbatim>\<open>ErrNotConnected\<close>; neither hands a request to the transport (the wire
  is as before) nor changes the client.
\<close>

theorem not_connected_is_refused:
  assumes "\<not> connected client" and "data \<noteq> []"
  shows "PublishEvents d client w data =
           ((Some data, Some ErrNotConnected), client,
            w\<lparr>publishEventsCallCount := publishEventsCallCount w + 1\<rparr>)
         \<and> wire (snd (snd (PublishEvents d client w data))) = wire w
         \<and> PublishEvent d client w event = (Some ErrNotConnected, client, w)"
  using assms by (simp add: PublishEvents_def PublishEvent_def)

theorem not_connected_is_refused_witness:
  "\<not> connected offline \<and> [event0, badEvent] \<noteq> []
   \<and> PublishEvents deps0 offline world0 [event0, badEvent] =
       ((Some [event0, badEvent], Some ErrNotConnected), offline,
        world0\<lparr>publishEventsCallCount := 1\<rparr>)
   \<and> wire (snd (snd (PublishEvents deps0 offline world0 [event0, badEvent]))) = []
   \<and> PublishEvent deps0 offline world0 event0 = (Some ErrNotConnected, offline, world0)"
proof -
  have h1: "\<not> connected offline" by (rule offline_not_connected)
  have h2: "[event0, badEvent] \<noteq> []" by simp
  from not_connected_is_refused [OF h1 h2, of deps0 world0 event0] h1
  show ?thesis by (simp add: world0_def)
qed

text \<open>
  C8. On a connected client, \<^verbatim>\<open>PublishEvents\<close> attempts the events of a batch that is not
  empty one at a time in input order, and the first event whose \<^verbatim>\<open>PublishEvent\<close> call
  returns an error ends the batch there. Let the events of a list have been published in
  order, each on the state the one before it left, with every result \<^verbatim>\<open>nil\<close>. If
  \<^verbatim>\<open>PublishEvent\<close> on the state they left returns an error for the event that follows them in
  the batch, then \<^verbatim>\<open>PublishEvents\<close> returns \<^verbatim>\<open>nil\<close> for the unsent events together with that
  error, in the very state that call left: no later event is attempted, and the acked and
  not-acked counters are not touched. If the list is the whole batch, so that no event
  fails, then \<^verbatim>\<open>PublishEvents\<close> returns \<^verbatim>\<open>(nil, nil)\<close> in the state the last attempt left, with
  the acked-events counter raised by the size of the batch.
\<close>

theorem batch_in_order_until_first_error:
  assumes "connected client"
    and "publishAll d client (w\<lparr>publishEventsCallCount := publishEventsCallCount w + 1\<rparr>) pre
           = (rs, client1, w1)"
    and "\<forall>r \<in> set rs. r = None"
  shows "(PublishEvent d client1 w1 event = (Some sendErr, client2, w2) \<longrightarrow>
            PublishEvents d client w (pre @ event # post) = ((None, Some sendErr), client2, w2))
         \<and> (pre \<noteq> [] \<longrightarrow>
            PublishEvents d client w pre =
              ((None, None), client1,
               w1\<lparr>ackedEvents := ackedEvents w1 + of_nat (length pre)\<rparr>))"
proof (intro conjI impI)
  assume fails: "PublishEvent d client1 w1 event = (Some sendErr, client2, w2)"
  have "publishLoop d client (w\<lparr>publishEventsCallCount := publishEventsCallCount w + 1\<rparr>)
          (pre @ event # post) = publishLoop d client1 w1 (event # post)"
    by (rule publishLoop_prefix [OF assms(2,3)])
  also have "\<dots> = (Some sendErr, client2, w2)"
    by (simp add: fails)
  finally show "PublishEvents d client w (pre @ event # post)
                  = ((None, Some sendErr), client2, w2)"
    using assms(1) by (simp add: PublishEvents_def)
next
  assume "pre \<noteq> []"
  from PublishEvents_all_published [OF assms(1) this assms(2,3)]
  show "PublishEvents d client w pre =
          ((None, None), client1, w1\<lparr>ackedEvents := ackedEvents w1 + of_nat (length pre)\<rparr>)"
    by simp
qed

theorem batch_in_order_until_first_error_witness:
  "connected okThenUnavailable
   \<and> publishAll deps0 okThenUnavailable
         (world0\<lparr>publishEventsCallCount := publishEventsCallCount world0 + 1\<rparr>) [event0]
       = ([None], okThenUnavailable,
          \<lparr>ackedEvents = 0, eventsNotAcked = 0, publishEventsCallCount = 1, wire = [req0]\<rparr>)
   \<and> PublishEvent deps0 okThenUnavailable
         \<lparr>ackedEvents = 0, eventsNotAcked = 0, publishEventsCallCount = 1, wire = [req0]\<rparr> event0
       = (Some (HTTPStatusError ''503 Service Unavailable''),
          okThenUnavailable\<lparr>connected := False\<rparr>,
          \<lparr>ackedEvents = 0, eventsNotAcked = 0, publishEventsCallCount = 1,
            wire = [req0, req0]\<rparr>)
   \<and> PublishEvents deps0 okThenUnavailable world0 [event0, event0, event0]
       = ((None, Some (HTTPStatusError ''503 Service Unavailable'')),
          okThenUnavailable\<lparr>connected := False\<rparr>,
          \<lparr>ackedEvents = 0, eventsNotAcked = 0, publishEventsCallCount = 1,
            wire = [req0, req0]\<rparr>)
   \<and> [event0] \<noteq> []
   \<and> PublishEvents deps0 okThenUnavailable world0 [event0]
       = ((None, None), okThenUnavailable,
          \<lparr>ackedEvents = 1, eventsNotAcked = 0, publishEventsCallCount = 1, wire = [req0]\<rparr>)"
proof -
  let ?w1 = "\<lparr>ackedEvents = 0, eventsNotAcked = 0, publishEventsCallCount = 1, wire = [req0]\<rparr>"
  let ?w2 = "\<lparr>ackedEvents = 0, eventsNotAcked = 0, publishEventsCallCount = 1,
              wire = [req0, req0]\<rparr>"
  note f = okThenUnavailable_facts
  have first: "PublishEvent deps0 okThenUnavailable
                 (world0\<lparr>publishEventsCallCount := publishEventsCallCount world0 + 1\<rparr>) event0
               = (None, okThenUnavailable, ?w1)"
    using PublishEvent_status_lt_300 [OF f(1) f(2), of
        "world0\<lparr>publishEventsCallCount := publishEventsCallCount world0 + 1\<rparr>"
        "response0 200 ''200 OK'' (Inr [])"]
    by (simp add: world0_def f(3) response0_sel)
  have h1: "connected okThenUnavailable" by (rule f(1))
  have h2: "publishAll deps0 okThenUnavailable
              (world0\<lparr>publishEventsCallCount := publishEventsCallCount world0 + 1\<rparr>) [event0]
            = ([None], okThenUnavailable, ?w1)"
    by (simp add: first)
  have h3: "\<forall>r \<in> set [None :: error option]. r = None" by simp
  have h4: "PublishEvent deps0 okThenUnavailable ?w1 event0
            = (Some (HTTPStatusError ''503 Service Unavailable''),
               okThenUnavailable\<lparr>connected := False\<rparr>, ?w2)"
    using PublishEvent_status_ge_300 [OF f(1) f(2), of ?w1
        "response0 503 ''503 Service Unavailable'' (Inr [])"]
    by (simp add: f(4) response0_sel)
  from batch_in_order_until_first_error [OF h1 h2 h3, of event0
      "HTTPStatusError ''503 Service Unavailable''" "okThenUnavailable\<lparr>connected := False\<rparr>"
      ?w2 "[event0]"] h1 h2 h4
  show ?thesis by simp
qed

subsection \<open>Events that do not encode\<close>

text \<open>
  C9. For an event that the encoder cannot serialize, the request path returns status 0,
  no body and \<^verbatim>\<open>ErrJSONEncodeFailed\<close> without handing a request to the transport (client and
  world, with its wire, are as before), and \<^verbatim>\<open>PublishEvent\<close> on a connected client returns
  \<^verbatim>\<open>nil\<close> with the connected flag, the client and the world unchanged.
\<close>

theorem unencodable_event_is_dropped:
  assumes "connected client" and "Marshal (encoder client) (Event data) = Inl msg"
  shows "request d client w method path ps (Some (Event data)) =
           ((0, None, Some ErrJSONEncodeFailed), client, w)
         \<and> PublishEvent d client w data = (None, client, w)"
  using assms by (simp add: PublishEvent_def request_def)

theorem unencodable_event_is_dropped_witness:
  "connected (answers 200 ''200 OK'' (Inr []))
   \<and> Marshal (encoder (answers 200 ''200 OK'' (Inr []))) (Event badEvent)
       = Inl ''json: unsupported value''
   \<and> request deps0 (answers 200 ''200 OK'' (Inr [])) world0 ''POST'' [] Map.empty
         (Some (Event badEvent))
       = ((0, None, Some ErrJSONEncodeFailed), answers 200 ''200 OK'' (Inr []), world0)
   \<and> PublishEvent deps0 (answers 200 ''200 OK'' (Inr [])) world0 badEvent
       = (None, answers 200 ''200 OK'' (Inr []), world0)"
proof -
  let ?c = "answers 200 ''200 OK'' (Inr [])"
  have h1: "connected ?c" by (rule answers_facts)
  have h2: "Marshal (encoder ?c) (Event badEvent) = Inl ''json: unsupported value''"
    by (simp add: answers_def Marshal0)
  from unencodable_event_is_dropped [OF h1 h2, of deps0 world0 "''POST''" "[]" Map.empty] h1 h2
  show ?thesis by simp
qed

subsection \<open>The unsent events\<close>

text \<open>
  C10. For every batch, the unsent events that \<^verbatim>\<open>PublishEvents\<close> returns are \<^verbatim>\<open>nil\<close>, or they
  are the whole input batch, unchanged; the latter only when the client is not connected
  and the batch is not empty, and then the error is \<^verbatim>\<open>ErrNotConnected\<close>. So a part of the
  batch is never returned.
\<close>

theorem unsent_is_nil_or_whole_batch:
  "fst (fst (PublishEvents d client w data)) = None
   \<or> (fst (fst (PublishEvents d client w data)) = Some data
      \<and> snd (fst (PublishEvents d client w data)) = Some ErrNotConnected
      \<and> \<not> connected client \<and> data \<noteq> [])"
  by (auto simp: PublishEvents_def Let_def split: prod.splits option.splits)

theorem unsent_is_nil_or_whole_batch_witness:
  "fst (fst (PublishEvents deps0 offline world0 [event0, badEvent])) = Some [event0, badEvent]
   \<and> snd (fst (PublishEvents deps0 offline world0 [event0, badEvent])) = Some ErrNotConnected
   \<and> \<not> connected offline \<and> [event0, badEvent] \<noteq> []"
proof -
  have "fst (fst (PublishEvents deps0 offline world0 [event0, badEvent])) \<noteq> None"
    by (simp add: PublishEvents_def offline_not_connected)
  with unsent_is_nil_or_whole_batch [of deps0 offline world0 "[event0, badEvent]"]
  show ?thesis by blast
qed

end
